theory Spec2Isabelle
  imports Main
begin

section \<open>JavaScript values\<close>

text \<open>
  The client is written in JavaScript. Every datum the lifecycle code inspects is either
  absent (\<open>undefined\<close>) or was decoded from a JSON body, so values are the JSON values
  plus \<open>undefined\<close>. The program does no arithmetic on such a number: it only tests it
  for truthiness and prints it. A number is therefore given by these two observations,
  whether it is truthy (not \<open>0\<close>) and the text \<open>String\<close> prints for it, which covers
  fractions and the exponent form of large numbers as well. An object is the list of its
  own properties; a property that occurs twice is read at its first occurrence.
\<close>

datatype jsval =
    JUndefined
  | JNull
  | JBool bool
  | JNum bool string
  | JStr string
  | JArr "jsval list"
  | JObj "(string \<times> jsval) list"

datatype js_error = TypeError

text \<open>\<open>!!v\<close>: the falsy values are \<open>undefined\<close>, \<open>null\<close>, \<open>false\<close>, \<open>0\<close> and \<open>""\<close>.\<close>

fun truthy :: "jsval \<Rightarrow> bool" where
  "truthy JUndefined = False"
| "truthy JNull = False"
| "truthy (JBool b) = b"
| "truthy (JNum nz s) = nz"
| "truthy (JStr s) = (s \<noteq> [])"
| "truthy (JArr xs) = True"
| "truthy (JObj kvs) = True"

fun nullish :: "jsval \<Rightarrow> bool" where
  "nullish JUndefined = True"
| "nullish JNull = True"
| "nullish v = False"

text \<open>\<open>a || b\<close>\<close>

definition js_or :: "jsval \<Rightarrow> jsval \<Rightarrow> jsval" where
  "js_or a b = (if truthy a then a else b)"

text \<open>
  Decimal digits of a natural number, as \<open>String(n)\<close> prints an HTTP status or a length
  (both far below the magnitude at which \<open>String\<close> turns to the exponent form).
\<close>

fun dec :: "nat \<Rightarrow> string" where
  "dec n = (if n < 10 then [''0123456789'' ! n] else dec (n div 10) @ [''0123456789'' ! (n mod 10)])"

declare dec.simps [simp del]

text \<open>
  Reading property \<open>k\<close> of a value that is neither \<open>undefined\<close> nor \<open>null\<close>. Primitives
  are boxed and have no own property of the names the program reads, except \<open>length\<close> on
  strings and arrays.
\<close>

fun member :: "jsval \<Rightarrow> string \<Rightarrow> jsval" where
  "member (JObj kvs) k = (case map_of kvs k of Some v \<Rightarrow> v | None \<Rightarrow> JUndefined)"
| "member (JStr s) k = (if k = ''length'' then JNum (s \<noteq> []) (dec (length s)) else JUndefined)"
| "member (JArr xs) k = (if k = ''length'' then JNum (xs \<noteq> []) (dec (length xs)) else JUndefined)"
| "member v k = JUndefined"

text \<open>\<open>v.k\<close> raises a TypeError on \<open>undefined\<close> and \<open>null\<close>; \<open>v?.k\<close> yields \<open>undefined\<close> there.\<close>

definition get :: "jsval \<Rightarrow> string \<Rightarrow> js_error + jsval" where
  "get v k = (if nullish v then Inl TypeError else Inr (member v k))"

definition opt :: "jsval \<Rightarrow> string \<Rightarrow> jsval" where
  "opt v k = (if nullish v then JUndefined else member v k)"

definition bindE :: "'e + 'a \<Rightarrow> ('a \<Rightarrow> 'e + 'b) \<Rightarrow> 'e + 'b" where
  "bindE m f = (case m of Inl e \<Rightarrow> Inl e | Inr x \<Rightarrow> f x)"

fun join_with :: "string \<Rightarrow> string list \<Rightarrow> string" where
  "join_with sep [] = []"
| "join_with sep [x] = x"
| "join_with sep (x # y # ys) = x @ sep @ join_with sep (y # ys)"

text \<open>
  \<open>String(v)\<close>, which template literals apply: an array prints its elements joined by a
  comma, with \<open>undefined\<close> and \<open>null\<close> elements printed as the empty string.
\<close>

fun js_toString :: "jsval \<Rightarrow> string" where
  "js_toString JUndefined = ''undefined''"
| "js_toString JNull = ''null''"
| "js_toString (JBool b) = (if b then ''true'' else ''false'')"
| "js_toString (JNum nz s) = s"
| "js_toString (JStr s) = s"
| "js_toString (JArr xs) = join_with '','' (map (\<lambda>x. if nullish x then [] else js_toString x) xs)"
| "js_toString (JObj kvs) = ''[object Object]''"

text \<open>
  \<open>v.join(sep)\<close>: only arrays have the method; on any other value the call is a
  TypeError (\<open>None\<close>).
\<close>

fun js_join :: "jsval \<Rightarrow> string \<Rightarrow> string option" where
  "js_join (JArr xs) sep = Some (join_with sep (map (\<lambda>x. if nullish x then [] else js_toString x) xs))"
| "js_join v sep = None"

section \<open>Feature gate\<close>

record capabilities =
  app_access :: bool
  tier :: jsval
  language_addon :: bool
  strategic_master_plan :: bool
  advisor_chatbot :: bool
  is_admin :: bool

text \<open>
  \<open>featureGate(access)\<close>. \<open>feats\<close> is \<open>access?.features || {}\<close>; each field is then read
  with a plain member access, which is where a TypeError could arise.
\<close>

definition featureGate :: "jsval \<Rightarrow> js_error + capabilities" where
  "featureGate access =
     (let feats = js_or (opt access ''features'') (JObj []) in
      bindE (get feats ''app_access'') (\<lambda>a.
      bindE (get feats ''tier'') (\<lambda>t.
      bindE (get feats ''language_addon'') (\<lambda>l.
      bindE (get feats ''strategic_master_plan'') (\<lambda>s.
      bindE (get feats ''advisor_chatbot'') (\<lambda>c.
        Inr \<lparr> app_access = truthy a,
              tier = js_or t (js_or (opt access ''tier'') (JStr ''none'')),
              language_addon = truthy l,
              strategic_master_plan = truthy s,
              advisor_chatbot = truthy c,
              is_admin = truthy (opt (opt access ''subscription'') ''admin'') \<rparr>))))))"

definition restrictive :: capabilities where
  "restrictive = \<lparr> app_access = False, tier = JStr ''none'', language_addon = False,
                    strategic_master_plan = False, advisor_chatbot = False, is_admin = False \<rparr>"

section \<open>Persistent store\<close>

text \<open>
  \<open>localStorage\<close>: the stored strings, and whether reading or writing raises (storage
  denied or full). Every accessor of the program wraps its access in \<open>try\<close>/\<open>catch\<close>.
\<close>

record localStorage =
  items :: "string \<rightharpoonup> string"
  read_fails :: bool
  write_fails :: bool

datatype storage_error = StorageError

definition getItem :: "localStorage \<Rightarrow> string \<Rightarrow> storage_error + string option" where
  "getItem ls k = (if read_fails ls then Inl StorageError else Inr (items ls k))"

definition setItem :: "localStorage \<Rightarrow> string \<Rightarrow> string \<Rightarrow> storage_error + localStorage" where
  "setItem ls k v =
     (if write_fails ls then Inl StorageError else Inr (ls\<lparr>items := (items ls)(k \<mapsto> v)\<rparr>))"

definition LS_session :: string where
  "LS_session = ''st_session_v4''"

definition LS_sessionToken :: string where
  "LS_sessionToken = ''st_session_token_v1''"

definition LS_autoDownload :: string where
  "LS_autoDownload = ''st_auto_download_v1''"

text \<open>
  \<open>saveSession(sess)\<close> stores \<open>JSON.stringify(sess)\<close>. The serialiser is the platform's and
  is a parameter of the model.
\<close>

definition saveSession :: "(jsval \<Rightarrow> string) \<Rightarrow> jsval \<Rightarrow> localStorage \<Rightarrow> localStorage" where
  "saveSession stringify sess ls =
     (case setItem ls LS_session (stringify sess) of Inl e \<Rightarrow> ls | Inr ls' \<Rightarrow> ls')"

text \<open>\<open>loadSessionToken()\<close>: \<open>localStorage.getItem(key) || null\<close>, and \<open>null\<close> when reading raises.\<close>

definition loadSessionToken :: "localStorage \<Rightarrow> jsval" where
  "loadSessionToken ls =
     (case getItem ls LS_sessionToken of
        Inl e \<Rightarrow> JNull
      | Inr None \<Rightarrow> JNull
      | Inr (Some s) \<Rightarrow> js_or (JStr s) JNull)"

text \<open>\<open>saveSessionToken(t)\<close>: nothing for a falsy \<open>t\<close>; \<open>setItem\<close> stores \<open>String(t)\<close>.\<close>

definition saveSessionToken :: "jsval \<Rightarrow> localStorage \<Rightarrow> localStorage" where
  "saveSessionToken t ls =
     (if \<not> truthy t then ls
      else case setItem ls LS_sessionToken (js_toString t) of Inl e \<Rightarrow> ls | Inr ls' \<Rightarrow> ls')"

definition loadAutoDownload :: "localStorage \<Rightarrow> bool" where
  "loadAutoDownload ls =
     (case getItem ls LS_autoDownload of
        Inl e \<Rightarrow> True
      | Inr raw \<Rightarrow> (if raw = None then True else raw = Some ''true''))"

text \<open>\<open>saveAutoDownload(v)\<close> stores \<open>String(!!v)\<close>.\<close>

definition saveAutoDownload :: "bool \<Rightarrow> localStorage \<Rightarrow> localStorage" where
  "saveAutoDownload v ls =
     (case setItem ls LS_autoDownload (if v then ''true'' else ''false'') of
        Inl e \<Rightarrow> ls
      | Inr ls' \<Rightarrow> ls')"

section \<open>Network gateway\<close>

text \<open>
  What one \<open>fetch\<close> can do: be aborted by the timeout timer, fail in transport (with the
  message the handler prints), or answer with an HTTP status and a body. The body is
  decoded as JSON when the content type says so and as text otherwise; either decoding
  can fail.
\<close>

datatype body = JsonBody jsval | JsonUnreadable | TextBody string | TextUnreadable

datatype fetch_outcome = Aborted | Failed string | Responded nat body

record request =
  meth :: string
  route :: string
  params :: "(string \<times> jsval) list"
  bearer :: jsval
  content :: jsval

record api_result =
  ok :: bool
  code :: nat
  data :: jsval
  error :: jsval

text \<open>
  The events a handler leaves behind, in order: requests handed to the gateway, toasts,
  navigations to a download address and uncaught exceptions.
\<close>

record download_url =
  url_route :: string
  url_params :: "(string \<times> jsval) list"

datatype event =
    Fetch request
  | ToastError string
  | ToastOk string
  | Navigate download_url
  | Uncaught js_error

definition body_payload :: "body \<Rightarrow> jsval" where
  "body_payload b =
     (case b of
        JsonBody v \<Rightarrow> v
      | JsonUnreadable \<Rightarrow> JNull
      | TextBody s \<Rightarrow> JStr s
      | TextUnreadable \<Rightarrow> JStr [])"

text \<open>
  The result object \<open>apiFetch\<close> builds for one outcome. \<open>res.ok\<close> is a status from 200 to
  299; a timeout or a transport failure is caught and reported with status 0. A field
  the result object does not have reads as \<open>undefined\<close>; its \<open>raw\<close> and \<open>headers\<close> fields,
  which no caller reads, are left out.
\<close>

definition apiResult :: "fetch_outcome \<Rightarrow> api_result" where
  "apiResult out =
     (case out of
        Responded st b \<Rightarrow>
          (let p = body_payload b in
           if \<not> (200 \<le> st \<and> st \<le> 299)
           then \<lparr> ok = False, code = st, data = JUndefined,
                  error = js_or (opt p ''error'') (js_or p (JStr (''HTTP '' @ dec st))) \<rparr>
           else \<lparr> ok = True, code = st, data = p, error = JUndefined \<rparr>)
      | Aborted \<Rightarrow> \<lparr> ok = False, code = 0, data = JUndefined, error = JStr ''timeout'' \<rparr>
      | Failed msg \<Rightarrow> \<lparr> ok = False, code = 0, data = JUndefined, error = JStr msg \<rparr>)"

text \<open>\<open>apiFetch\<close> hands the request to the gateway and returns the result object.\<close>

definition apiFetch :: "request \<Rightarrow> fetch_outcome \<Rightarrow> event list \<Rightarrow> api_result \<times> event list" where
  "apiFetch req out tr = (apiResult out, tr @ [Fetch req])"

definition verifyMagicToken :: "jsval \<Rightarrow> fetch_outcome \<Rightarrow> event list \<Rightarrow> api_result \<times> event list" where
  "verifyMagicToken magicToken =
     apiFetch \<lparr> meth = ''GET'', route = ''/auth/verify'', params = [(''token'', magicToken)],
                bearer = JNull, content = JUndefined \<rparr>"

definition jobsInit :: "jsval \<Rightarrow> jsval \<Rightarrow> jsval \<Rightarrow> fetch_outcome \<Rightarrow> event list \<Rightarrow> api_result \<times> event list" where
  "jobsInit token job_type inputs =
     apiFetch \<lparr> meth = ''POST'', route = ''/uploads/init'', params = [], bearer = token,
                content = JObj [(''data'', JObj [(''job_type'', job_type), (''inputs'', inputs)])] \<rparr>"

definition jobsListUploads :: "jsval \<Rightarrow> jsval \<Rightarrow> fetch_outcome \<Rightarrow> event list \<Rightarrow> api_result \<times> event list" where
  "jobsListUploads token job_id =
     apiFetch \<lparr> meth = ''GET'', route = ''/uploads/list'', params = [(''job_id'', job_id)],
                bearer = token, content = JUndefined \<rparr>"

definition jobsSubmit :: "jsval \<Rightarrow> jsval \<Rightarrow> fetch_outcome \<Rightarrow> event list \<Rightarrow> api_result \<times> event list" where
  "jobsSubmit token job_id =
     apiFetch \<lparr> meth = ''POST'', route = ''/jobs/submit'', params = [], bearer = token,
                content = JObj [(''data'', JObj [(''job_id'', job_id)])] \<rparr>"

text \<open>
  \<open>jobsStatus\<close> makes the primary query and, on a 404, the listing query. \<open>o1\<close> and \<open>o2\<close>
  are what the gateway does with the first and with the second request; \<open>o2\<close> is not
  consumed when no second request is made.
\<close>

definition jobsStatus :: "jsval \<Rightarrow> jsval \<Rightarrow> fetch_outcome \<Rightarrow> fetch_outcome \<Rightarrow> event list \<Rightarrow> api_result \<times> event list" where
  "jobsStatus token job_id o1 o2 tr =
     (let (r1, tr1) =
            apiFetch \<lparr> meth = ''GET'', route = ''/jobs/status'', params = [(''job_id'', job_id)],
                       bearer = token, content = JUndefined \<rparr> o1 tr
      in if ok r1 then (r1, tr1)
         else if code r1 = 404 then jobsListUploads token job_id o2 tr1
         else (r1, tr1))"

text \<open>\<open>buildDownloadUrl\<close>: the session token is appended as a parameter when it is truthy.\<close>

definition buildDownloadUrl :: "jsval \<Rightarrow> jsval \<Rightarrow> download_url" where
  "buildDownloadUrl job_id sessionToken =
     \<lparr> url_route = ''/jobs/download'',
       url_params = (''job_id'', job_id) # (if truthy sessionToken then [(''token'', sessionToken)] else []) \<rparr>"

section \<open>Job wizard\<close>

text \<open>
  The state of the \<open>JobWizard\<close> component: its \<open>useState\<close> cells as the setters last left
  them, the \<open>autoDownloadedRef\<close> cell, and the events produced so far.
\<close>

record wizard =
  jobType :: jsval
  inputs :: jsval
  jobId :: jsval
  jobMeta :: jsval
  uploads :: jsval
  missingRequired :: jsval
  status :: jsval
  busy :: bool
  autoDownloaded :: bool
  trace :: "event list"

definition initial_wizard :: wizard where
  "initial_wizard =
     \<lparr> jobType = JStr ''sector_report'',
       inputs = JObj [(''topic'', JStr []), (''company_or_url'', JStr []), (''notes'', JStr []),
                      (''auto_design'', JBool True)],
       jobId = JNull, jobMeta = JNull, uploads = JArr [], missingRequired = JArr [],
       status = JStr ''draft'', busy = False, autoDownloaded = False, trace = [] \<rparr>"

text \<open>
  A handler is a closure of one render of the component. It reads the props and the state
  cells as that render bound them (\<open>seen\<close>), also after an \<open>await\<close>; a setter writes the
  live state, which the closure never reads back. Only the ref cell is read live.
\<close>

record render =
  token :: jsval
  gate :: capabilities
  autoDownloadEnabled :: bool
  seen :: wizard

text \<open>
  The bindings a render of \<open>JobWizard\<close> makes from its props and the current state:
  \<open>token = session?.session_token || loadSessionToken() || null\<close> and
  \<open>g = featureGate(session?.access)\<close>.
\<close>

definition JobWizard :: "localStorage \<Rightarrow> jsval \<Rightarrow> bool \<Rightarrow> wizard \<Rightarrow> js_error + render" where
  "JobWizard ls session autoDl st =
     bindE (featureGate (opt session ''access'')) (\<lambda>caps.
       Inr \<lparr> token = js_or (opt session ''session_token'') (js_or (loadSessionToken ls) JNull),
             gate = caps, autoDownloadEnabled = autoDl, seen = st \<rparr>)"

definition toastError :: "string \<Rightarrow> wizard \<Rightarrow> wizard" where
  "toastError msg st = st\<lparr>trace := trace st @ [ToastError msg]\<rparr>"

definition toastOk :: "string \<Rightarrow> wizard \<Rightarrow> wizard" where
  "toastOk msg st = st\<lparr>trace := trace st @ [ToastOk msg]\<rparr>"

text \<open>
  \<open>refreshUploads(id)\<close>. The fallback in \<open>r.data?.status || status\<close> is the \<open>status\<close> the
  closure was created with.
\<close>

definition refreshUploads :: "render \<Rightarrow> jsval \<Rightarrow> fetch_outcome \<Rightarrow> wizard \<Rightarrow> wizard" where
  "refreshUploads rd ident out st =
     (if \<not> truthy ident then st
      else let (r, tr) = jobsListUploads (token rd) ident out (trace st);
               st1 = st\<lparr>trace := tr\<rparr>
           in if \<not> ok r then toastError (''uploads/list failed: '' @ js_toString (error r)) st1
              else st1\<lparr> uploads := js_or (opt (data r) ''files'') (JArr []),
                        missingRequired := js_or (opt (data r) ''missing_required_sets'') (JArr []),
                        status := js_or (opt (data r) ''status'') (status (seen rd)) \<rparr>)"

text \<open>\<open>r.data?.status || r.data?.job?.status || null\<close>\<close>

definition observed_status :: "api_result \<Rightarrow> jsval" where
  "observed_status r =
     js_or (opt (data r) ''status'') (js_or (opt (opt (data r) ''job'') ''status'') JNull)"

text \<open>
  The part of \<open>pollOnce(id)\<close> that runs when the awaited \<open>jobsStatus\<close> has resolved with
  \<open>r\<close>: it works on the state as it is at that moment. (\<open>r.data.files\<close> is read only where
  \<open>r.data?.files\<close> was truthy, so \<open>r.data\<close> is an object there.)
\<close>

definition pollOnce_resume :: "render \<Rightarrow> jsval \<Rightarrow> api_result \<Rightarrow> wizard \<Rightarrow> wizard" where
  "pollOnce_resume rd ident r st =
     (if \<not> ok r then st
      else let sv = observed_status r;
               st1 = (if truthy sv then st\<lparr>status := sv\<rparr> else st);
               st2 = (if truthy (opt (data r) ''files'')
                      then st1\<lparr> uploads := js_or (member (data r) ''files'') (JArr []),
                                missingRequired := js_or (opt (data r) ''missing_required_sets'') (JArr []) \<rparr>
                      else st1)
           in if autoDownloadEnabled rd \<and> \<not> autoDownloaded st2 \<and> sv = JStr ''delivered''
              then st2\<lparr> autoDownloaded := True,
                        trace := trace st2 @ [ToastOk ''Delivered! Auto-download started.'',
                                              Navigate (buildDownloadUrl ident (token rd))] \<rparr>
              else st2)"

text \<open>\<open>pollOnce(id)\<close> run without interruption: the request(s), then the continuation.\<close>

definition pollOnce :: "render \<Rightarrow> jsval \<Rightarrow> fetch_outcome \<times> fetch_outcome \<Rightarrow> wizard \<Rightarrow> wizard" where
  "pollOnce rd ident c st =
     (if \<not> truthy ident then st
      else let (r, tr) = jobsStatus (token rd) ident (fst c) (snd c) (trace st)
           in pollOnce_resume rd ident r (st\<lparr>trace := tr\<rparr>))"

definition onInit :: "render \<Rightarrow> fetch_outcome \<Rightarrow> wizard \<Rightarrow> wizard" where
  "onInit rd out st =
     (if \<not> app_access (gate rd) \<and> \<not> is_admin (gate rd)
      then toastError ''Access blocked: subscription is not active.'' st
      else if \<not> truthy (token rd)
      then toastError ''Missing session token. Please sign in via magic link again.'' st
      else let st1 = st\<lparr>busy := True, autoDownloaded := False\<rparr>;
               ins = inputs (seen rd);
               payloadInputs = JObj [(''auto_design'', JBool (truthy (member ins ''auto_design''))),
                                     (''topic'', member ins ''topic''),
                                     (''company_or_url'', member ins ''company_or_url''),
                                     (''notes'', member ins ''notes'')];
               (r, tr) = jobsInit (token rd) (jobType (seen rd)) payloadInputs out (trace st1);
               st2 = st1\<lparr>trace := tr, busy := False\<rparr>
           in if \<not> ok r then toastError (''uploads/init failed: '' @ js_toString (error r)) st2
              else toastOk (''Job created: '' @ js_toString (opt (data r) ''job_id''))
                     (st2\<lparr> jobId := opt (data r) ''job_id'',
                           jobMeta := JObj [(''required'', js_or (opt (data r) ''required'') (JArr [])),
                                            (''optional'', js_or (opt (data r) ''optional'') (JArr [])),
                                            (''warnings'', js_or (opt (data r) ''warnings'') (JArr []))],
                           uploads := JArr [],
                           missingRequired := js_or (opt (data r) ''required'') (JArr []),
                           status := JStr ''draft'' \<rparr>))"

text \<open>
  \<open>onSubmit\<close>. After the awaited refresh the handler tests \<open>missingRequired\<close>, which is
  the binding of its own render. The outcomes are those of the listing request, of the
  submit request and of the two requests of the closing poll.
\<close>

definition onSubmit :: "render \<Rightarrow> fetch_outcome \<Rightarrow> fetch_outcome \<Rightarrow> fetch_outcome \<times> fetch_outcome \<Rightarrow> wizard \<Rightarrow> wizard" where
  "onSubmit rd o_list o_submit c st =
     (let jid = jobId (seen rd) in
      if \<not> truthy jid then toastError ''Create a job first (Init).'' st
      else let st1 = refreshUploads rd jid o_list st;
               mr = missingRequired (seen rd)
           in if truthy (member (js_or mr (JArr [])) ''length'')
              then (case js_join mr '', '' of
                      None \<Rightarrow> st1\<lparr>trace := trace st1 @ [Uncaught TypeError]\<rparr>
                    | Some names \<Rightarrow> toastError (''Missing required file sets: '' @ names) st1)
              else let st1b = st1\<lparr>busy := True\<rparr>;
                       (r, tr) = jobsSubmit (token rd) jid o_submit (trace st1b);
                       st2 = st1b\<lparr>trace := tr, busy := False\<rparr>
                   in if \<not> ok r then toastError (''jobs/submit failed: '' @ js_toString (error r)) st2
                      else pollOnce rd jid c
                             ((toastOk ''Submitted for admin approval.'' st2)\<lparr>status := JStr ''pending_review''\<rparr>))"

section \<open>Application root\<close>

datatype step = StepIntro | StepLogin | StepVerify | StepApp

text \<open>
  The root component's state together with the browser state it touches: the storage,
  the query parameters of the current address, and whether \<open>history.replaceState\<close> raises.
\<close>

record app =
  step :: step
  session :: jsval
  storage :: localStorage
  address :: "(string \<times> string) list"
  history_fails :: bool
  events :: "event list"

definition onError :: "string \<Rightarrow> app \<Rightarrow> app" where
  "onError m a = a\<lparr>events := events a @ [ToastError m], step := StepLogin\<rparr>"

text \<open>
  \<open>onVerified(payload)\<close>; \<open>now\<close> is \<open>new Date().toISOString()\<close>. (\<open>payload\<close> is an object
  where its fields are read, since \<open>payload?.session_token\<close> was truthy.)
\<close>

definition onVerified :: "(jsval \<Rightarrow> string) \<Rightarrow> string \<Rightarrow> jsval \<Rightarrow> app \<Rightarrow> app" where
  "onVerified stringify now pl a =
     (let sessionToken = js_or (opt pl ''session_token'') JNull in
      if \<not> truthy sessionToken
      then a\<lparr> events := events a @ [ToastError ''Verify response missing session_token. Check backend /auth/verify output.''],
              step := StepLogin \<rparr>
      else let ls1 = saveSessionToken sessionToken (storage a);
               sess = JObj [(''email'', member pl ''email''),
                            (''access'', member pl ''access''),
                            (''app_url'', member pl ''app_url''),
                            (''verified_at'', JStr now),
                            (''session_token'', sessionToken)];
               ls2 = saveSession stringify sess ls1;
               adr = (if history_fails a then address a
                      else filter (\<lambda>kv. fst kv \<noteq> ''token'') (address a))
           in a\<lparr> storage := ls2, session := sess, address := adr,
                  events := events a @ [ToastOk ''Verified. Welcome!''], step := StepApp \<rparr>)"

text \<open>The effect of \<open>VerifyScreen\<close> for the one-time token \<open>tok\<close> taken from the address.\<close>

definition VerifyScreen :: "(jsval \<Rightarrow> string) \<Rightarrow> string \<Rightarrow> jsval \<Rightarrow> fetch_outcome \<Rightarrow> app \<Rightarrow> app" where
  "VerifyScreen stringify now tok out a =
     (if \<not> truthy tok then a
      else let (r, tr) = verifyMagicToken tok out (events a);
               a1 = a\<lparr>events := tr\<rparr>
           in if \<not> ok r then onError (''Verify failed: '' @ js_toString (error r)) a1
              else onVerified stringify now (data r) a1)"

section \<open>Observations\<close>

text \<open>The requests handed to the gateway and the download navigations, in order.\<close>

fun requests :: "event list \<Rightarrow> request list" where
  "requests [] = []"
| "requests (Fetch q # es) = q # requests es"
| "requests (e # es) = requests es"

fun downloads :: "event list \<Rightarrow> download_url list" where
  "downloads [] = []"
| "downloads (Navigate u # es) = u # downloads es"
| "downloads (e # es) = downloads es"

fun is_object :: "jsval \<Rightarrow> bool" where
  "is_object (JObj kvs) = True"
| "is_object v = False"

text \<open>The primary status query was answered with HTTP 404.\<close>

fun not_found :: "fetch_outcome \<Rightarrow> bool" where
  "not_found (Responded st b) = (st = 404)"
| "not_found out = False"

text \<open>
  What \<open>jobsStatus\<close> resolves with in a poll cycle \<open>c\<close> (the outcomes of its two possible
  requests), and whether the cycle observes \<open>delivered\<close>.
\<close>

definition poll_result :: "render \<Rightarrow> jsval \<Rightarrow> fetch_outcome \<times> fetch_outcome \<Rightarrow> api_result" where
  "poll_result rd ident c = fst (jobsStatus (token rd) ident (fst c) (snd c) [])"

definition reports_delivered :: "render \<Rightarrow> jsval \<Rightarrow> fetch_outcome \<times> fetch_outcome \<Rightarrow> bool" where
  "reports_delivered rd ident c =
     (ok (poll_result rd ident c) \<and> observed_status (poll_result rd ident c) = JStr ''delivered'')"

text \<open>Consecutive poll cycles of one interval timer.\<close>

definition poll_cycles :: "render \<Rightarrow> jsval \<Rightarrow> (fetch_outcome \<times> fetch_outcome) list \<Rightarrow> wizard \<Rightarrow> wizard" where
  "poll_cycles rd ident cs st = foldl (\<lambda>s c. pollOnce rd ident c s) st cs"

section \<open>Scenarios\<close>

text \<open>
  A signed-in subscriber with auto-download switched on. \<open>example_render st\<close> is the render
  of the wizard in state \<open>st\<close> for this session.
\<close>

definition example_access :: jsval where
  "example_access = JObj [(''features'', JObj [(''app_access'', JBool True), (''tier'', JStr ''pro'')])]"

definition example_session :: jsval where
  "example_session =
     JObj [(''email'', JStr ''a@b.com''), (''access'', example_access), (''session_token'', JStr ''tok1'')]"

definition example_storage :: localStorage where
  "example_storage = \<lparr> items = Map.empty, read_fails = False, write_fails = False \<rparr>"

definition example_render :: "wizard \<Rightarrow> render" where
  "example_render st =
     \<lparr> token = JStr ''tok1'',
       gate = \<lparr> app_access = True, tier = JStr ''pro'', language_addon = False,
                strategic_master_plan = False, advisor_chatbot = False, is_admin = False \<rparr>,
       autoDownloadEnabled = True, seen = st \<rparr>"

definition json_reply :: "jsval \<Rightarrow> fetch_outcome" where
  "json_reply v = Responded 200 (JsonBody v)"

text \<open>Init answers for two jobs; each requires the file set \<open>financials\<close>.\<close>

definition init_reply :: "string \<Rightarrow> fetch_outcome" where
  "init_reply name =
     json_reply (JObj [(''job_id'', JStr name), (''required'', JArr [JStr ''financials'']),
                       (''optional'', JArr [JStr ''notes''])])"

definition delivered_reply :: fetch_outcome where
  "delivered_reply = json_reply (JObj [(''status'', JStr ''delivered'')])"

definition financials_file :: jsval where
  "financials_file =
     JObj [(''file_set'', JStr ''financials''), (''filename'', JStr ''fin.xlsx''),
           (''key'', JStr ''k1''), (''size'', JNum True ''2048'')]"

text \<open>A listing that reports every required set present, and one that reports one missing.\<close>

definition listing_complete :: fetch_outcome where
  "listing_complete =
     json_reply (JObj [(''files'', JArr [financials_file]), (''missing_required_sets'', JArr []),
                       (''status'', JStr ''draft'')])"

definition listing_incomplete :: fetch_outcome where
  "listing_incomplete =
     json_reply (JObj [(''files'', JArr []), (''missing_required_sets'', JArr [JStr ''financials'']),
                       (''status'', JStr ''draft'')])"

text \<open>The wizard after a first successful init, which created \<open>job_1\<close>.\<close>

definition job1_created :: wizard where
  "job1_created = onInit (example_render initial_wizard) (init_reply ''job_1'') initial_wizard"

text \<open>
  Delivery, then an init attempt that times out, then the next tick of the timer. The
  timer's closure is the one of the render that set it up, since neither \<open>jobId\<close> nor the
  preference has changed.
\<close>

definition job1_delivered :: wizard where
  "job1_delivered = pollOnce (example_render job1_created) (JStr ''job_1'') (delivered_reply, Aborted) job1_created"

definition job1_init_timed_out :: wizard where
  "job1_init_timed_out = onInit (example_render job1_delivered) Aborted job1_delivered"

definition job1_polled_again :: wizard where
  "job1_polled_again =
     pollOnce (example_render job1_created) (JStr ''job_1'') (delivered_reply, Aborted) job1_init_timed_out"

text \<open>
  A poll for \<open>job_1\<close> is in flight (the status query was answered 404, the listing is being
  fetched) while a second init creates \<open>job_2\<close>; the poll's answer arrives afterwards.
\<close>

definition late_listing :: fetch_outcome where
  "late_listing =
     json_reply (JObj [(''files'', JArr [financials_file]), (''missing_required_sets'', JArr []),
                       (''status'', JStr ''delivered'')])"

definition job1_poll_in_flight :: "api_result \<times> event list" where
  "job1_poll_in_flight =
     jobsStatus (token (example_render job1_created)) (JStr ''job_1'')
       (Responded 404 (TextBody ''Not found'')) late_listing (trace job1_created)"

definition job2_created :: wizard where
  "job2_created =
     (let st = job1_created\<lparr>trace := snd job1_poll_in_flight\<rparr>
      in onInit (example_render st) (init_reply ''job_2'') st)"

definition job2_after_late_response :: wizard where
  "job2_after_late_response =
     pollOnce_resume (example_render job1_created) (JStr ''job_1'') (fst job1_poll_in_flight) job2_created"

text \<open>
  Submitting \<open>job_1\<close> after its required file arrived out of band: the render still holds
  the missing set from init, the forced refresh reports none missing.
\<close>

definition submit_after_out_of_band_upload :: wizard where
  "submit_after_out_of_band_upload =
     onSubmit (example_render job1_created) listing_complete (json_reply (JObj [(''ok'', JBool True)]))
       (json_reply (JObj [(''status'', JStr ''pending_review'')]), Aborted) job1_created"

text \<open>
  The converse: a refresh has emptied the missing set and the component has re-rendered;
  the refresh forced by submit then reports the set missing again.
\<close>

definition job1_refreshed :: wizard where
  "job1_refreshed = refreshUploads (example_render job1_created) (JStr ''job_1'') listing_complete job1_created"

definition submit_after_file_removed :: wizard where
  "submit_after_file_removed =
     onSubmit (example_render job1_refreshed) listing_incomplete (json_reply (JObj [(''ok'', JBool True)]))
       (json_reply (JObj [(''status'', JStr ''pending_review'')]), Aborted) job1_refreshed"

text \<open>
  Submitting after that refresh, with nothing missing: the submit request goes out and
  the closing poll reports \<open>pending_review\<close>. A later refresh is answered with an empty
  status.
\<close>

definition job1_submitted :: wizard where
  "job1_submitted =
     onSubmit (example_render job1_refreshed) listing_complete (json_reply (JObj [(''ok'', JBool True)]))
       (json_reply (JObj [(''status'', JStr ''pending_review'')]), Aborted) job1_refreshed"

definition listing_without_status :: fetch_outcome where
  "listing_without_status =
     json_reply (JObj [(''files'', JArr [financials_file]), (''missing_required_sets'', JArr []),
                       (''status'', JStr [])])"

text \<open>The root component on arrival through a one-time link, and a verify answer.\<close>

definition arriving :: "localStorage \<Rightarrow> app" where
  "arriving ls =
     \<lparr> step = StepVerify, session = JNull, storage = ls,
       address = [(''token'', ''magic1''), (''lang'', ''en'')], history_fails = False, events = [] \<rparr>"

definition verify_payload :: jsval where
  "verify_payload =
     JObj [(''ok'', JBool True), (''session_token'', JStr ''tok1''), (''access'', example_access),
           (''email'', JStr ''a@b.com'')]"

text \<open>A storage that is full: it still holds an old token, and every write raises.\<close>

definition full_storage :: localStorage where
  "full_storage = \<lparr> items = [LS_sessionToken \<mapsto> ''old''], read_fails = False, write_fails = True \<rparr>"

section \<open>Basic facts\<close>

lemma truthy_not_nullish: "truthy v \<Longrightarrow> \<not> nullish v"
  by (cases v) simp_all

lemma member_falsy: "\<not> truthy v \<Longrightarrow> k \<noteq> ''length'' \<Longrightarrow> member v k = JUndefined"
  by (cases v) simp_all

lemma opt_undefined: "opt JUndefined k = JUndefined"
  by (simp add: opt_def)

lemma opt_non_object: "\<not> is_object a \<Longrightarrow> k \<noteq> ''length'' \<Longrightarrow> opt a k = JUndefined"
  by (cases a) (simp_all add: opt_def)

lemma feats_not_nullish: "\<not> nullish (js_or (opt a ''features'') (JObj []))"
  by (simp add: js_or_def truthy_not_nullish)

lemma feats_member:
  "k \<noteq> ''length'' \<Longrightarrow> member (js_or (opt a ''features'') (JObj [])) k = opt (opt a ''features'') k"
  by (auto simp: js_or_def opt_def member_falsy dest: truthy_not_nullish)

lemma requests_append: "requests (xs @ ys) = requests xs @ requests ys"
  by (induction xs rule: requests.induct) simp_all

lemma downloads_append: "downloads (xs @ ys) = downloads xs @ downloads ys"
  by (induction xs rule: downloads.induct) simp_all

lemma apiFetch_result: "fst (apiFetch q out tr) = apiResult out"
  by (simp add: apiFetch_def)

lemma apiFetch_trace: "snd (apiFetch q out tr) = tr @ [Fetch q]"
  by (simp add: apiFetch_def)

lemma apiResult_not_found: "not_found out \<longleftrightarrow> \<not> ok (apiResult out) \<and> code (apiResult out) = 404"
  by (cases out) (auto simp: apiResult_def Let_def)

lemma jobsStatus_result:
  "fst (jobsStatus tok jid o1 o2 tr) = (if not_found o1 then apiResult o2 else apiResult o1)"
  using apiResult_not_found [of o1]
  by (auto simp: jobsStatus_def jobsListUploads_def apiFetch_def)

lemma jobsStatus_routes:
  "map route (requests (snd (jobsStatus tok jid o1 o2 tr))) =
     map route (requests tr) @ (if not_found o1 then [''/jobs/status'', ''/uploads/list''] else [''/jobs/status''])"
  using apiResult_not_found [of o1]
  by (auto simp: jobsStatus_def jobsListUploads_def apiFetch_def requests_append)

lemma jobsStatus_downloads: "downloads (snd (jobsStatus tok jid o1 o2 tr)) = downloads tr"
  by (auto simp: jobsStatus_def jobsListUploads_def apiFetch_def downloads_append)

section \<open>The feature gate\<close>

text \<open>
  Claim C5, as amended. \<open>featureGate\<close> never raises, whatever it is given, and every field
  of its result is a function of the grant alone: the capability flags are the truthiness
  of the fields of \<open>features\<close>, the tier is \<open>features.tier\<close>, else the grant's own \<open>tier\<close>,
  else \<open>none\<close>, and \<open>is_admin\<close> is the truthiness of \<open>subscription.admin\<close>. For \<open>null\<close>,
  \<open>undefined\<close> and every value that is not an object the result is the all-restrictive
  default. In general the result is that default exactly when no flag of \<open>features\<close> is
  truthy, the tier so derived is \<open>none\<close>, and \<open>subscription.admin\<close> is not truthy.
\<close>

theorem featureGate_total:
  "featureGate a =
     Inr \<lparr> app_access = truthy (opt (opt a ''features'') ''app_access''),
           tier = js_or (opt (opt a ''features'') ''tier'') (js_or (opt a ''tier'') (JStr ''none'')),
           language_addon = truthy (opt (opt a ''features'') ''language_addon''),
           strategic_master_plan = truthy (opt (opt a ''features'') ''strategic_master_plan''),
           advisor_chatbot = truthy (opt (opt a ''features'') ''advisor_chatbot''),
           is_admin = truthy (opt (opt a ''subscription'') ''admin'') \<rparr>
   \<and> (\<not> is_object a \<longrightarrow> featureGate a = Inr restrictive)
   \<and> (featureGate a = Inr restrictive \<longleftrightarrow>
        \<not> truthy (opt (opt a ''features'') ''app_access'')
        \<and> js_or (opt (opt a ''features'') ''tier'') (js_or (opt a ''tier'') (JStr ''none'')) = JStr ''none''
        \<and> \<not> truthy (opt (opt a ''features'') ''language_addon'')
        \<and> \<not> truthy (opt (opt a ''features'') ''strategic_master_plan'')
        \<and> \<not> truthy (opt (opt a ''features'') ''advisor_chatbot'')
        \<and> \<not> truthy (opt (opt a ''subscription'') ''admin''))"
proof -
  let ?f = "js_or (opt a ''features'') (JObj [])"
  have g: "\<And>k. get ?f k = Inr (member ?f k)"
    by (simp add: get_def feats_not_nullish)
  have 1: "featureGate a =
     Inr \<lparr> app_access = truthy (opt (opt a ''features'') ''app_access''),
           tier = js_or (opt (opt a ''features'') ''tier'') (js_or (opt a ''tier'') (JStr ''none'')),
           language_addon = truthy (opt (opt a ''features'') ''language_addon''),
           strategic_master_plan = truthy (opt (opt a ''features'') ''strategic_master_plan''),
           advisor_chatbot = truthy (opt (opt a ''features'') ''advisor_chatbot''),
           is_admin = truthy (opt (opt a ''subscription'') ''admin'') \<rparr>"
    unfolding featureGate_def Let_def g bindE_def
    by (simp add: feats_member)
  have 2: "featureGate a = Inr restrictive" if "\<not> is_object a"
  proof -
    have u: "opt a ''features'' = JUndefined" "opt a ''tier'' = JUndefined"
      "opt a ''subscription'' = JUndefined"
      using that by (simp_all add: opt_non_object)
    show ?thesis unfolding 1 u restrictive_def
      by (simp add: opt_undefined js_or_def)
  qed
  have 3: "featureGate a = Inr restrictive \<longleftrightarrow>
        \<not> truthy (opt (opt a ''features'') ''app_access'')
        \<and> js_or (opt (opt a ''features'') ''tier'') (js_or (opt a ''tier'') (JStr ''none'')) = JStr ''none''
        \<and> \<not> truthy (opt (opt a ''features'') ''language_addon'')
        \<and> \<not> truthy (opt (opt a ''features'') ''strategic_master_plan'')
        \<and> \<not> truthy (opt (opt a ''features'') ''advisor_chatbot'')
        \<and> \<not> truthy (opt (opt a ''subscription'') ''admin'')"
    unfolding 1 restrictive_def by auto
  from 1 2 3 show ?thesis by blast
qed

text \<open>
  The default at \<open>null\<close>, \<open>undefined\<close>, a string, an array, and an object whose \<open>features\<close>
  is a string and whose tier is \<open>none\<close>.
\<close>

theorem featureGate_total_witness:
  "featureGate JNull = Inr restrictive \<and> featureGate JUndefined = Inr restrictive
   \<and> featureGate (JStr ''pro'') = Inr restrictive \<and> featureGate (JArr [JBool True]) = Inr restrictive
   \<and> featureGate (JObj [(''features'', JStr ''x''), (''tier'', JStr ''none'')]) = Inr restrictive"
  using featureGate_total [of JNull, THEN conjunct2, THEN conjunct1]
    featureGate_total [of JUndefined, THEN conjunct2, THEN conjunct1]
    featureGate_total [of "JStr ''pro''", THEN conjunct2, THEN conjunct1]
    featureGate_total [of "JArr [JBool True]", THEN conjunct2, THEN conjunct1]
    featureGate_total [of "JObj [(''features'', JStr ''x''), (''tier'', JStr ''none'')]", THEN conjunct2, THEN conjunct2]
  by (simp add: opt_def js_or_def)

text \<open>
  Claim C5 as stated fails: a grant without \<open>features\<close> is malformed, yet its top-level
  \<open>tier\<close> and its \<open>subscription.admin\<close> still reach the result.
\<close>

theorem featureGate_malformed_counterexample:
  "featureGate (JObj [(''tier'', JStr ''pro'')]) \<noteq> Inr restrictive
   \<and> featureGate (JObj [(''subscription'', JObj [(''admin'', JBool True)])]) \<noteq> Inr restrictive"
  by (simp add: featureGate_def get_def bindE_def js_or_def opt_def restrictive_def)

section \<open>The auto-download preference\<close>

text \<open>
  Claim C10. \<open>loadAutoDownload\<close> answers true when reading the storage raises and when
  nothing is stored under its key; when a string is stored it answers whether that
  string is exactly \<open>true\<close>.
\<close>

theorem loadAutoDownload_default:
  "(read_fails ls \<longrightarrow> loadAutoDownload ls)
   \<and> (\<not> read_fails ls \<and> items ls LS_autoDownload = None \<longrightarrow> loadAutoDownload ls)
   \<and> (\<not> read_fails ls \<and> items ls LS_autoDownload = Some raw \<longrightarrow> loadAutoDownload ls = (raw = ''true''))"
  by (simp add: loadAutoDownload_def getItem_def)

text \<open>
  Unreadable storage, no stored value, and the stored strings \<open>true\<close> and \<open>false\<close>.
\<close>

theorem loadAutoDownload_default_witness:
  "loadAutoDownload \<lparr> items = Map.empty, read_fails = True, write_fails = False \<rparr>
   \<and> loadAutoDownload \<lparr> items = Map.empty, read_fails = False, write_fails = False \<rparr>
   \<and> loadAutoDownload \<lparr> items = [LS_autoDownload \<mapsto> ''true''], read_fails = False, write_fails = False \<rparr>
   \<and> \<not> loadAutoDownload \<lparr> items = [LS_autoDownload \<mapsto> ''false''], read_fails = False, write_fails = False \<rparr>"
  using loadAutoDownload_default [of "\<lparr> items = Map.empty, read_fails = True, write_fails = False \<rparr>"]
    loadAutoDownload_default [of "\<lparr> items = Map.empty, read_fails = False, write_fails = False \<rparr>"]
    loadAutoDownload_default [of "\<lparr> items = [LS_autoDownload \<mapsto> ''true''], read_fails = False, write_fails = False \<rparr>" "''true''"]
    loadAutoDownload_default [of "\<lparr> items = [LS_autoDownload \<mapsto> ''false''], read_fails = False, write_fails = False \<rparr>" "''false''"]
  by simp

section \<open>The status lookup\<close>

text \<open>
  Claim C7. When the primary status query is answered with HTTP 404, \<open>jobsStatus\<close> makes
  the listing query and returns its result. In every other case it returns the primary
  result and makes no second request: on success, on any other HTTP error, and on a
  timeout or a transport failure, which carry status 0. The 404 case is exactly the case
  of a failed primary result with status 404.
\<close>

theorem jobsStatus_fallback_on_404_only:
  "(not_found o1 \<longrightarrow>
      fst (jobsStatus tok jid o1 o2 tr) = apiResult o2
      \<and> map route (requests (snd (jobsStatus tok jid o1 o2 tr))) =
          map route (requests tr) @ [''/jobs/status'', ''/uploads/list''])
   \<and> (\<not> not_found o1 \<longrightarrow>
      fst (jobsStatus tok jid o1 o2 tr) = apiResult o1
      \<and> map route (requests (snd (jobsStatus tok jid o1 o2 tr))) =
          map route (requests tr) @ [''/jobs/status''])
   \<and> (not_found o1 \<longleftrightarrow> \<not> ok (apiResult o1) \<and> code (apiResult o1) = 404)
   \<and> \<not> not_found Aborted \<and> code (apiResult Aborted) = 0
   \<and> \<not> not_found (Failed msg) \<and> code (apiResult (Failed msg)) = 0"
  using apiResult_not_found [of o1]
  by (simp add: jobsStatus_result jobsStatus_routes apiResult_def)

text \<open>
  A 404 falls back to the listing; a timeout, a 500 and a success do not.
\<close>

theorem jobsStatus_fallback_on_404_only_witness:
  "fst (jobsStatus (JStr ''tok1'') (JStr ''job_1'') (Responded 404 (TextBody ''Not found'')) listing_complete [])
     = apiResult listing_complete
   \<and> fst (jobsStatus (JStr ''tok1'') (JStr ''job_1'') Aborted listing_complete []) = apiResult Aborted
   \<and> fst (jobsStatus (JStr ''tok1'') (JStr ''job_1'') (Responded 500 JsonUnreadable) listing_complete [])
     = apiResult (Responded 500 JsonUnreadable)
   \<and> fst (jobsStatus (JStr ''tok1'') (JStr ''job_1'') delivered_reply listing_complete []) = apiResult delivered_reply"
  using jobsStatus_fallback_on_404_only [of "Responded 404 (TextBody ''Not found'')" "JStr ''tok1''" "JStr ''job_1''" listing_complete "[]"]
    jobsStatus_fallback_on_404_only [of Aborted "JStr ''tok1''" "JStr ''job_1''" listing_complete "[]"]
    jobsStatus_fallback_on_404_only [of "Responded 500 JsonUnreadable" "JStr ''tok1''" "JStr ''job_1''" listing_complete "[]"]
    jobsStatus_fallback_on_404_only [of delivered_reply "JStr ''tok1''" "JStr ''job_1''" listing_complete "[]"]
  by (simp add: delivered_reply_def json_reply_def)

section \<open>Starting a job\<close>

text \<open>
  Claim C6. \<open>onInit\<close> stops with the access-blocked toast, and no request, when neither
  \<open>app_access\<close> nor \<open>is_admin\<close> holds; otherwise it stops with the missing-token toast, and
  no request, when the session token is falsy; only when both preconditions hold does it
  hand the init request to the gateway (exactly one request).
\<close>

theorem onInit_local_preconditions:
  "(\<not> app_access (gate rd) \<and> \<not> is_admin (gate rd) \<longrightarrow>
      onInit rd out st = toastError ''Access blocked: subscription is not active.'' st
      \<and> requests (trace (onInit rd out st)) = requests (trace st))
   \<and> ((app_access (gate rd) \<or> is_admin (gate rd)) \<and> \<not> truthy (token rd) \<longrightarrow>
      onInit rd out st = toastError ''Missing session token. Please sign in via magic link again.'' st
      \<and> requests (trace (onInit rd out st)) = requests (trace st))
   \<and> ((app_access (gate rd) \<or> is_admin (gate rd)) \<and> truthy (token rd) \<longrightarrow>
      map route (requests (trace (onInit rd out st))) = map route (requests (trace st)) @ [''/uploads/init''])"
  by (auto simp: onInit_def toastError_def toastOk_def jobsInit_def apiFetch_def requests_append Let_def)

text \<open>The example render is the render of the wizard for the example session.\<close>

lemma example_render_is_render:
  "JobWizard example_storage example_session True st = Inr (example_render st)"
  by (simp add: JobWizard_def featureGate_def get_def bindE_def js_or_def opt_def
      example_session_def example_access_def example_render_def)

text \<open>
  A session without capabilities, a session without token, and the example session.
\<close>

theorem onInit_local_preconditions_witness:
  "onInit ((example_render initial_wizard)\<lparr>gate := restrictive\<rparr>) (init_reply ''job_1'') initial_wizard
     = toastError ''Access blocked: subscription is not active.'' initial_wizard
   \<and> onInit ((example_render initial_wizard)\<lparr>token := JNull\<rparr>) (init_reply ''job_1'') initial_wizard
     = toastError ''Missing session token. Please sign in via magic link again.'' initial_wizard
   \<and> map route (requests (trace (onInit (example_render initial_wizard) (init_reply ''job_1'') initial_wizard)))
     = [''/uploads/init'']"
  using onInit_local_preconditions [of "(example_render initial_wizard)\<lparr>gate := restrictive\<rparr>" "init_reply ''job_1''" initial_wizard]
    onInit_local_preconditions [of "(example_render initial_wizard)\<lparr>token := JNull\<rparr>" "init_reply ''job_1''" initial_wizard]
    onInit_local_preconditions [of "example_render initial_wizard" "init_reply ''job_1''" initial_wizard]
  by (simp add: example_render_def restrictive_def initial_wizard_def)

section \<open>Evaluating the scenarios\<close>

lemmas scenario_defs = job1_created_def job1_delivered_def job1_init_timed_out_def
  job1_polled_again_def example_render_def init_reply_def json_reply_def delivered_reply_def
  initial_wizard_def listing_complete_def listing_incomplete_def financials_file_def
  late_listing_def job1_poll_in_flight_def job2_created_def job2_after_late_response_def
  submit_after_out_of_band_upload_def job1_refreshed_def submit_after_file_removed_def
  job1_submitted_def listing_without_status_def

lemmas handler_defs = onInit_def pollOnce_def pollOnce_resume_def refreshUploads_def onSubmit_def
  jobsStatus_def jobsListUploads_def jobsInit_def jobsSubmit_def apiFetch_def apiResult_def
  body_payload_def observed_status_def buildDownloadUrl_def toastError_def toastOk_def
  js_or_def opt_def Let_def

text \<open>
  The state a first successful init leaves.
\<close>

lemma job1_created_eval:
  "job1_created = initial_wizard\<lparr> jobId := JStr ''job_1'',
      jobMeta := JObj [(''required'', JArr [JStr ''financials'']), (''optional'', JArr [JStr ''notes'']), (''warnings'', JArr [])],
      missingRequired := JArr [JStr ''financials''],
      trace := [Fetch \<lparr> meth = ''POST'', route = ''/uploads/init'', params = [], bearer = JStr ''tok1'',
                  content = JObj [(''data'', JObj [(''job_type'', JStr ''sector_report''),
                     (''inputs'', JObj [(''auto_design'', JBool True), (''topic'', JStr []), (''company_or_url'', JStr []), (''notes'', JStr [])])])] \<rparr>,
                ToastOk ''Job created: job_1''] \<rparr>"
  by (simp add: scenario_defs handler_defs)

text \<open>
  The stored preference is read back as it was saved, where the storage works.
\<close>

lemma loadAutoDownload_saveAutoDownload:
  "\<not> read_fails ls \<Longrightarrow> \<not> write_fails ls \<Longrightarrow> loadAutoDownload (saveAutoDownload v ls) = v"
  by (simp add: loadAutoDownload_def saveAutoDownload_def getItem_def setItem_def)

section \<open>Verification of the one-time token\<close>

lemma VerifyScreen_unfold:
  "truthy tok \<Longrightarrow>
   VerifyScreen sfy now tok out a =
     (let a1 = a\<lparr>events := events a @ [Fetch \<lparr> meth = ''GET'', route = ''/auth/verify'',
                  params = [(''token'', tok)], bearer = JNull, content = JUndefined \<rparr>]\<rparr>
      in if \<not> ok (apiResult out) then onError (''Verify failed: '' @ js_toString (error (apiResult out))) a1
         else onVerified sfy now (data (apiResult out)) a1)"
  by (simp add: VerifyScreen_def verifyMagicToken_def apiFetch_def Let_def)



text \<open>
  Claim C4, as amended. After a successful verify exchange whose answer carries a
  non-empty session token, the session held in memory is the new session (with the
  answer's access grant and that token) and the application is at the authenticated
  step. If the storage accepts writes, it then holds exactly that token and the
  serialised session, every other key being as before; if writing raises, the error is
  swallowed and the storage is as it was. The \<open>token\<close> parameter is removed from the
  address and all other parameters are kept, unless the history replace raises, in which
  case the address is as it was.
\<close>

theorem verify_success_persists_session:
  assumes "truthy tok" and "out = Responded st (JsonBody pl)" and "200 \<le> st" and "st \<le> 299"
    and "opt pl ''session_token'' = JStr t" and "t \<noteq> []"
  shows "session (VerifyScreen sfy now tok out a) =
           JObj [(''email'', member pl ''email''), (''access'', member pl ''access''),
                 (''app_url'', member pl ''app_url''), (''verified_at'', JStr now),
                 (''session_token'', JStr t)]
    \<and> step (VerifyScreen sfy now tok out a) = StepApp
    \<and> (\<not> write_fails (storage a) \<longrightarrow>
         items (storage (VerifyScreen sfy now tok out a)) =
           (items (storage a))(LS_sessionToken \<mapsto> t,
              LS_session \<mapsto> sfy (session (VerifyScreen sfy now tok out a))))
    \<and> (write_fails (storage a) \<longrightarrow> storage (VerifyScreen sfy now tok out a) = storage a)
    \<and> (\<not> history_fails a \<longrightarrow>
         address (VerifyScreen sfy now tok out a) = filter (\<lambda>kv. fst kv \<noteq> ''token'') (address a)
         \<and> ''token'' \<notin> fst ` set (address (VerifyScreen sfy now tok out a)))
    \<and> (history_fails a \<longrightarrow> address (VerifyScreen sfy now tok out a) = address a)"
proof -
  have r: "ok (apiResult out)" "data (apiResult out) = pl"
    using assms(2-4) by (simp_all add: apiResult_def body_payload_def)
  have tk: "js_or (opt pl ''session_token'') JNull = JStr t" "truthy (JStr t)"
    using assms(5,6) by (simp_all add: js_or_def)
  show ?thesis
    unfolding VerifyScreen_unfold [OF assms(1)] Let_def
    using r tk
    by (auto simp: onVerified_def Let_def saveSessionToken_def saveSession_def setItem_def)
qed

text \<open>
  The example answer on a working storage (\<open>String\<close> stands in for the serialiser, which
  the theorem leaves arbitrary).
\<close>

theorem verify_success_persists_session_witness:
  "items (storage (VerifyScreen js_toString ''2026-01-01T00:00:00.000Z'' (JStr ''magic1'')
       (json_reply verify_payload) (arriving example_storage)))
     = [LS_sessionToken \<mapsto> ''tok1'',
        LS_session \<mapsto> js_toString (JObj [(''email'', JStr ''a@b.com''), (''access'', example_access),
           (''app_url'', JUndefined), (''verified_at'', JStr ''2026-01-01T00:00:00.000Z''),
           (''session_token'', JStr ''tok1'')])]
   \<and> address (VerifyScreen js_toString ''2026-01-01T00:00:00.000Z'' (JStr ''magic1'')
       (json_reply verify_payload) (arriving example_storage)) = [(''lang'', ''en'')]
   \<and> step (VerifyScreen js_toString ''2026-01-01T00:00:00.000Z'' (JStr ''magic1'')
       (json_reply verify_payload) (arriving example_storage)) = StepApp"
proof -
  have t: "truthy (JStr ''magic1'')" by simp
  have o: "json_reply verify_payload = Responded 200 (JsonBody verify_payload)"
    by (simp add: json_reply_def)
  have s: "opt verify_payload ''session_token'' = JStr ''tok1''"
    by (simp add: verify_payload_def opt_def)
  from verify_success_persists_session [OF t o _ _ s, of js_toString "''2026-01-01T00:00:00.000Z''" "arriving example_storage"]
  show ?thesis
    by (simp add: arriving_def example_storage_def verify_payload_def)
qed

text \<open>
  Claim C4 as stated fails on a storage that rejects writes: the exchange succeeds and
  the application proceeds, but the store still holds the old token and no session.
\<close>

theorem verify_rejected_write_counterexample:
  "step (VerifyScreen js_toString ''2026-01-01T00:00:00.000Z'' (JStr ''magic1'')
       (json_reply verify_payload) (arriving full_storage)) = StepApp
   \<and> items (storage (VerifyScreen js_toString ''2026-01-01T00:00:00.000Z'' (JStr ''magic1'')
       (json_reply verify_payload) (arriving full_storage))) LS_sessionToken = Some ''old''
   \<and> items (storage (VerifyScreen js_toString ''2026-01-01T00:00:00.000Z'' (JStr ''magic1'')
       (json_reply verify_payload) (arriving full_storage))) LS_session = None"
  by (simp add: VerifyScreen_def verifyMagicToken_def apiFetch_def apiResult_def json_reply_def
      body_payload_def verify_payload_def onVerified_def js_or_def opt_def Let_def arriving_def
      full_storage_def saveSessionToken_def saveSession_def setItem_def
      LS_session_def LS_sessionToken_def)

section \<open>Reconciliation with the server\<close>

lemma opt_member_truthy: "truthy (opt v k) \<Longrightarrow> member v k = opt v k"
  by (auto simp: opt_def split: if_splits)

lemma pollOnce_resume_fields:
  "jobId (pollOnce_resume rd ident r st) = jobId st"
  "status (pollOnce_resume rd ident r st) =
     (if ok r \<and> truthy (observed_status r) then observed_status r else status st)"
  "uploads (pollOnce_resume rd ident r st) =
     (if ok r \<and> truthy (opt (data r) ''files'') then opt (data r) ''files'' else uploads st)"
  "missingRequired (pollOnce_resume rd ident r st) =
     (if ok r \<and> truthy (opt (data r) ''files'')
      then js_or (opt (data r) ''missing_required_sets'') (JArr []) else missingRequired st)"
  by (auto simp: pollOnce_resume_def Let_def opt_member_truthy js_or_def)

lemma pollOnce_resume_failed: "\<not> ok r \<Longrightarrow> pollOnce_resume rd ident r st = st"
  by (simp add: pollOnce_resume_def)

lemma pollOnce_unfold:
  assumes "truthy ident"
  shows "pollOnce rd ident c st =
     pollOnce_resume rd ident (poll_result rd ident c)
       (st\<lparr>trace := snd (jobsStatus (token rd) ident (fst c) (snd c) (trace st))\<rparr>)"
proof -
  have "fst (jobsStatus (token rd) ident (fst c) (snd c) (trace st)) = poll_result rd ident c"
    by (simp add: poll_result_def jobsStatus_result)
  with assms show ?thesis
    by (simp add: pollOnce_def split_beta)
qed

text \<open>
  Claim C2, as amended. The continuation of a poll applies the answer to whatever the
  state is when it arrives, without comparing job ids: its effect on \<open>status\<close>,
  \<open>uploads\<close> and \<open>missingRequired\<close> is a function of the answer and the current state
  only, not of the id the poll was made for. A failed answer changes nothing and no
  answer changes the job id; a successful one overwrites the status when it carries a
  truthy status, and the uploads and missing sets when it carries files.
\<close>

theorem late_poll_response_applied_unchecked:
  "(\<not> ok r \<longrightarrow> pollOnce_resume rd ident r st = st)
   \<and> jobId (pollOnce_resume rd ident r st) = jobId st
   \<and> status (pollOnce_resume rd ident r st) =
       (if ok r \<and> truthy (observed_status r) then observed_status r else status st)
   \<and> uploads (pollOnce_resume rd ident r st) =
       (if ok r \<and> truthy (opt (data r) ''files'') then opt (data r) ''files'' else uploads st)
   \<and> missingRequired (pollOnce_resume rd ident r st) =
       (if ok r \<and> truthy (opt (data r) ''files'')
        then js_or (opt (data r) ''missing_required_sets'') (JArr []) else missingRequired st)"
  by (simp add: pollOnce_resume_fields pollOnce_resume_failed)

text \<open>
  A failed and a successful late answer for \<open>job_1\<close>, arriving when \<open>job_2\<close> is active.
\<close>

theorem late_poll_response_applied_unchecked_witness:
  "pollOnce_resume (example_render job1_created) (JStr ''job_1'') (apiResult Aborted) job2_created = job2_created
   \<and> jobId (pollOnce_resume (example_render job1_created) (JStr ''job_1'') (apiResult late_listing) job2_created)
       = jobId job2_created
   \<and> status (pollOnce_resume (example_render job1_created) (JStr ''job_1'') (apiResult late_listing) job2_created)
       = JStr ''delivered''"
  using late_poll_response_applied_unchecked [where r = "apiResult Aborted" and rd = "example_render job1_created"
      and ident = "JStr ''job_1''" and st = job2_created]
    late_poll_response_applied_unchecked [where r = "apiResult late_listing" and rd = "example_render job1_created"
      and ident = "JStr ''job_1''" and st = job2_created]
  by (simp add: apiResult_def late_listing_def json_reply_def body_payload_def observed_status_def
      opt_def js_or_def)

text \<open>
  Claim C2 as stated fails: after the second init has made \<open>job_2\<close> the active job, the
  late answer for \<open>job_1\<close> overwrites its status, uploads and missing sets.
\<close>

theorem late_response_counterexample:
  "jobId job2_created = JStr ''job_2'' \<and> status job2_created = JStr ''draft''
   \<and> uploads job2_created = JArr [] \<and> missingRequired job2_created = JArr [JStr ''financials'']
   \<and> jobId job2_after_late_response = JStr ''job_2''
   \<and> status job2_after_late_response = JStr ''delivered''
   \<and> uploads job2_after_late_response = JArr [financials_file]
   \<and> missingRequired job2_after_late_response = JArr []"
  by (simp add: scenario_defs handler_defs)

text \<open>
  Claim C8, as amended. A successful \<open>refreshUploads\<close> overwrites the uploads and the
  missing sets from the answer (an absent or falsy field reads as the empty list), and
  overwrites the status from the answer when the answer carries a truthy status; when it
  carries none, the status is not taken from the answer, and a status that has not
  changed since the handler's render is left as it is. A successful poll overwrites the
  status only when the answer carries a truthy status (its own, else that of its \<open>job\<close>),
  and the uploads and missing sets only when the answer carries files; otherwise they
  stay as they are.
\<close>

theorem reconciliation_overwrites:
  assumes "truthy ident"
  shows "(ok (apiResult out) \<longrightarrow>
        uploads (refreshUploads rd ident out st) = js_or (opt (data (apiResult out)) ''files'') (JArr [])
        \<and> missingRequired (refreshUploads rd ident out st) =
            js_or (opt (data (apiResult out)) ''missing_required_sets'') (JArr [])
        \<and> (truthy (opt (data (apiResult out)) ''status'') \<longrightarrow>
            status (refreshUploads rd ident out st) = opt (data (apiResult out)) ''status'')
        \<and> (\<not> truthy (opt (data (apiResult out)) ''status'') \<and> status (seen rd) = status st \<longrightarrow>
            status (refreshUploads rd ident out st) = status st))
    \<and> (ok (poll_result rd ident c) \<longrightarrow>
        status (pollOnce rd ident c st) =
            (if truthy (observed_status (poll_result rd ident c)) then observed_status (poll_result rd ident c)
             else status st)
        \<and> uploads (pollOnce rd ident c st) =
            (if truthy (opt (data (poll_result rd ident c)) ''files'')
             then opt (data (poll_result rd ident c)) ''files'' else uploads st)
        \<and> missingRequired (pollOnce rd ident c st) =
            (if truthy (opt (data (poll_result rd ident c)) ''files'')
             then js_or (opt (data (poll_result rd ident c)) ''missing_required_sets'') (JArr [])
             else missingRequired st))"
proof -
  have "uploads (refreshUploads rd ident out st) = js_or (opt (data (apiResult out)) ''files'') (JArr [])
      \<and> missingRequired (refreshUploads rd ident out st) =
            js_or (opt (data (apiResult out)) ''missing_required_sets'') (JArr [])
      \<and> (truthy (opt (data (apiResult out)) ''status'') \<longrightarrow>
            status (refreshUploads rd ident out st) = opt (data (apiResult out)) ''status'')
      \<and> (\<not> truthy (opt (data (apiResult out)) ''status'') \<and> status (seen rd) = status st \<longrightarrow>
            status (refreshUploads rd ident out st) = status st)"
    if "ok (apiResult out)"
    using that assms
    by (simp add: refreshUploads_def jobsListUploads_def apiFetch_def js_or_def)
  then show ?thesis
    by (simp add: pollOnce_unfold [OF assms] pollOnce_resume_fields)
qed

text \<open>
  A refresh with a complete listing, a refresh whose answer has an empty status, and a
  poll whose answer has a status but no files.
\<close>

theorem reconciliation_overwrites_witness:
  "uploads (refreshUploads (example_render job1_created) (JStr ''job_1'') listing_complete job1_created)
     = JArr [financials_file]
   \<and> missingRequired (refreshUploads (example_render job1_created) (JStr ''job_1'') listing_complete job1_created)
     = JArr []
   \<and> status (refreshUploads (example_render job1_created) (JStr ''job_1'') listing_complete job1_created)
     = JStr ''draft''
   \<and> status (refreshUploads (example_render job1_submitted) (JStr ''job_1'') listing_without_status job1_submitted)
     = status job1_submitted
   \<and> status (pollOnce (example_render job1_created) (JStr ''job_1'') (delivered_reply, Aborted) job1_created)
     = JStr ''delivered''
   \<and> uploads (pollOnce (example_render job1_created) (JStr ''job_1'') (delivered_reply, Aborted) job1_created)
     = uploads job1_created"
proof -
  have t: "truthy (JStr ''job_1'')" by simp
  have d: "data (apiResult listing_complete) =
      JObj [(''files'', JArr [financials_file]), (''missing_required_sets'', JArr []), (''status'', JStr ''draft'')]"
    "ok (apiResult listing_complete)"
    by (simp_all add: apiResult_def listing_complete_def json_reply_def body_payload_def)
  have e: "data (apiResult listing_without_status) =
      JObj [(''files'', JArr [financials_file]), (''missing_required_sets'', JArr []), (''status'', JStr [])]"
    "ok (apiResult listing_without_status)"
    by (simp_all add: apiResult_def listing_without_status_def json_reply_def body_payload_def)
  have s: "seen (example_render job1_submitted) = job1_submitted"
    by (simp add: example_render_def)
  have p: "poll_result (example_render job1_created) (JStr ''job_1'') (delivered_reply, Aborted)
      = \<lparr> ok = True, code = 200, data = JObj [(''status'', JStr ''delivered'')], error = JUndefined \<rparr>"
    by (simp add: poll_result_def jobsStatus_result delivered_reply_def json_reply_def apiResult_def body_payload_def)
  from reconciliation_overwrites [OF t, where out = listing_complete and rd = "example_render job1_created"
      and c = "(delivered_reply, Aborted)" and st = job1_created]
    reconciliation_overwrites [OF t, where out = listing_without_status and rd = "example_render job1_submitted"
      and st = job1_submitted, THEN conjunct1]
  show ?thesis
    by (simp add: d e s p opt_def js_or_def observed_status_def)
qed

text \<open>
  Claim C8 as stated fails for an answer whose status is empty: the refresh and the poll
  both succeed and the status stays \<open>pending_review\<close>.
\<close>

theorem empty_status_counterexample:
  "status job1_submitted = JStr ''pending_review''
   \<and> data (apiResult listing_without_status) =
       JObj [(''files'', JArr [financials_file]), (''missing_required_sets'', JArr []), (''status'', JStr [])]
   \<and> status (refreshUploads (example_render job1_submitted) (JStr ''job_1'') listing_without_status job1_submitted)
       = JStr ''pending_review''
   \<and> status (pollOnce (example_render job1_submitted) (JStr ''job_1'') (listing_without_status, Aborted) job1_submitted)
       = JStr ''pending_review''"
  by (simp add: scenario_defs handler_defs)

section \<open>The delivery trigger\<close>

text \<open>
  From an unset latch, consecutive poll cycles that observe \<open>delivered\<close> produce exactly
  one download, at the first of them.
\<close>

lemma pollOnce_fires:
  assumes "truthy ident" and "autoDownloadEnabled rd" and "reports_delivered rd ident c"
    and "\<not> autoDownloaded st"
  shows "downloads (trace (pollOnce rd ident c st)) = downloads (trace st) @ [buildDownloadUrl ident (token rd)]"
    and "autoDownloaded (pollOnce rd ident c st)"
  using assms(2-4)
  by (simp_all add: pollOnce_unfold [OF assms(1)] pollOnce_resume_def reports_delivered_def Let_def
      downloads_append jobsStatus_downloads)

lemma pollOnce_latched:
  assumes "autoDownloaded st"
  shows "downloads (trace (pollOnce rd ident c st)) = downloads (trace st)"
    and "autoDownloaded (pollOnce rd ident c st)"
  using assms
  by (auto simp: pollOnce_def pollOnce_resume_def Let_def split_beta jobsStatus_downloads)

lemma poll_cycles_latched:
  "autoDownloaded st \<Longrightarrow>
   downloads (trace (poll_cycles rd ident cs st)) = downloads (trace st)
   \<and> autoDownloaded (poll_cycles rd ident cs st)"
  by (induction cs arbitrary: st) (simp_all add: poll_cycles_def pollOnce_latched)

lemma poll_cycles_fire_once:
  assumes "truthy ident" and "autoDownloadEnabled rd" and "\<not> autoDownloaded st"
    and "cs \<noteq> []" and "\<forall>c \<in> set cs. reports_delivered rd ident c"
  shows "downloads (trace (poll_cycles rd ident cs st)) = downloads (trace st) @ [buildDownloadUrl ident (token rd)]"
proof (cases cs)
  case Nil
  with assms(4) show ?thesis by simp
next
  case (Cons c cs')
  then have d: "reports_delivered rd ident c" using assms(5) by simp
  have "poll_cycles rd ident cs st = poll_cycles rd ident cs' (pollOnce rd ident c st)"
    by (simp add: Cons poll_cycles_def)
  then show ?thesis
    using poll_cycles_latched [OF pollOnce_fires(2) [OF assms(1,2) d assms(3)], of rd ident cs']
    by (simp add: pollOnce_fires(1) [OF assms(1,2) d assms(3)])
qed

text \<open>
  \<open>onInit\<close> unsets the latch as soon as its local checks pass, before the init request is
  answered.
\<close>

lemma onInit_resets_latch:
  "(app_access (gate rd) \<or> is_admin (gate rd)) \<Longrightarrow> truthy (token rd) \<Longrightarrow> \<not> autoDownloaded (onInit rd out st)"
  by (auto simp: onInit_def Let_def toastError_def toastOk_def split_beta)

text \<open>
  Claim C1 fails on the code. \<open>job_1\<close> is delivered and downloaded; an init attempt then
  times out, so \<open>job_1\<close> stays the active job, but the attempt has already unset the latch;
  the next poll observes \<open>delivered\<close> for \<open>job_1\<close> again and downloads it a second time.
\<close>

theorem failed_init_rearms_trigger:
  "jobId job1_init_timed_out = JStr ''job_1''
   \<and> downloads (trace job1_delivered) = [buildDownloadUrl (JStr ''job_1'') (JStr ''tok1'')]
   \<and> downloads (trace job1_polled_again) =
       [buildDownloadUrl (JStr ''job_1'') (JStr ''tok1''), buildDownloadUrl (JStr ''job_1'') (JStr ''tok1'')]"
  by (simp add: scenario_defs handler_defs)

section \<open>Submitting\<close>

lemma refreshUploads_routes:
  "truthy ident \<Longrightarrow>
   map route (requests (trace (refreshUploads rd ident out st))) = map route (requests (trace st)) @ [''/uploads/list'']"
  by (simp add: refreshUploads_def jobsListUploads_def apiFetch_def toastError_def requests_append Let_def)

lemma pollOnce_resume_routes:
  "requests (trace (pollOnce_resume rd ident r st)) = requests (trace st)"
  by (simp add: pollOnce_resume_def Let_def requests_append)

lemma pollOnce_routes:
  "truthy ident \<Longrightarrow>
   map route (requests (trace (pollOnce rd ident c st))) =
     map route (requests (trace st)) @ (if not_found (fst c) then [''/jobs/status'', ''/uploads/list''] else [''/jobs/status''])"
  by (simp add: pollOnce_def split_beta pollOnce_resume_routes jobsStatus_routes)

text \<open>
  The requests of \<open>onSubmit\<close>: the forced listing, and then the submit request exactly when
  the missing sets bound by the handler's render are empty, whatever the listing
  answered.
\<close>

lemma onSubmit_requests:
  assumes "truthy (jobId (seen rd))"
  shows "map route (requests (trace (onSubmit rd ol os c st))) =
     map route (requests (trace st)) @ [''/uploads/list''] @
       (if truthy (member (js_or (missingRequired (seen rd)) (JArr [])) ''length'') then []
        else ''/jobs/submit'' #
          (if \<not> ok (apiResult os) then []
           else if not_found (fst c) then [''/jobs/status'', ''/uploads/list''] else [''/jobs/status'']))"
  using assms
  by (auto simp: onSubmit_def Let_def split_beta jobsSubmit_def apiFetch_def toastError_def toastOk_def
      requests_append refreshUploads_routes pollOnce_routes split: option.splits)

text \<open>
  Claim C3 fails on the code. With the required file uploaded out of band, the forced
  refresh reports nothing missing, yet the handler refuses with the stale list and makes
  no submit request. Conversely, when the refresh reports a set missing that the render
  held complete, the submit request is made.
\<close>

theorem onSubmit_tests_stale_missing_sets:
  "missingRequired submit_after_out_of_band_upload = JArr []
   \<and> map route (requests (trace submit_after_out_of_band_upload)) = [''/uploads/init'', ''/uploads/list'']
   \<and> last (trace submit_after_out_of_band_upload) = ToastError ''Missing required file sets: financials''
   \<and> status submit_after_out_of_band_upload = JStr ''draft''
   \<and> missingRequired submit_after_file_removed = JArr [JStr ''financials'']
   \<and> map route (requests (trace submit_after_file_removed)) =
       [''/uploads/init'', ''/uploads/list'', ''/uploads/list'', ''/jobs/submit'', ''/jobs/status'']
   \<and> status submit_after_file_removed = JStr ''pending_review''"
  by (simp add: scenario_defs handler_defs)

end
